theory Spec2Isabelle
  imports Main "HOL-Library.Char_ord" "HOL-Library.List_Lexorder" "HOL-Library.Multiset"
begin

section \<open>Go strings and the library functions the server calls\<close>

text \<open>
  A Go string is a sequence of bytes; it is modelled as \<^typ>\<open>string\<close>. Go compares strings
  byte by byte, a proper prefix being smaller: this is the lexicographic order on
  \<^typ>\<open>char list\<close>.
\<close>

text \<open>\<^verbatim>\<open>strings.Split(s, sep)\<close> for a separator of one byte: the pieces between the
  separators, one piece more than there are separators.\<close>

fun Split :: "string \<Rightarrow> char \<Rightarrow> string list" where
  "Split [] sep = [[]]"
| "Split (c # cs) sep =
     (if c = sep then [] # Split cs sep
      else (case Split cs sep of [] \<Rightarrow> [[c]] | p # ps \<Rightarrow> (c # p) # ps))"

text \<open>\<^verbatim>\<open>strings.Contains(s, sep)\<close> for a separator of one byte.\<close>

definition Contains :: "string \<Rightarrow> char \<Rightarrow> bool" where
  "Contains s c = (c \<in> set s)"

text \<open>\<^verbatim>\<open>strings.LastIndex(s, sep)\<close> for a separator of one byte: the index of its last
  occurrence, or -1.\<close>

fun LastIndex :: "string \<Rightarrow> char \<Rightarrow> int" where
  "LastIndex [] sep = -1"
| "LastIndex (c # cs) sep =
     (let r = LastIndex cs sep
      in if 0 \<le> r then r + 1 else if c = sep then 0 else -1)"

text \<open>\<^verbatim>\<open>strings.TrimSuffix(s, suffix)\<close>.\<close>

definition TrimSuffix :: "string \<Rightarrow> string \<Rightarrow> string" where
  "TrimSuffix s suffix =
     (if length suffix \<le> length s \<and> drop (length s - length suffix) s = suffix
      then take (length s - length suffix) s else s)"

text \<open>\<^verbatim>\<open>filepath.Ext(path)\<close>: the suffix beginning at the final dot in the final
  element of the path, empty if there is no dot. The loop runs from the last byte
  backwards and stops at a path separator; \<open>ext_scan\<close> is that loop on the reversed
  string, with the bytes already passed in \<open>acc\<close>.\<close>

fun ext_scan :: "string \<Rightarrow> string \<Rightarrow> string" where
  "ext_scan [] acc = []"
| "ext_scan (c # r) acc =
     (if c = CHR ''/'' then []
      else if c = CHR ''.'' then c # acc
      else ext_scan r (c # acc))"

definition Ext :: "string \<Rightarrow> string" where
  "Ext path = ext_scan (rev path) []"

section \<open>The version extractor\<close>

text \<open>The gin server (\<^verbatim>\<open>main.go\<close>): strip the extension, split the base name at every
  underscore, and accept only a split into exactly two parts.\<close>

definition extractVersionFromFile :: "string \<Rightarrow> string" where
  "extractVersionFromFile fileName =
     (let baseName = TrimSuffix fileName (Ext fileName);
          parts = Split baseName (CHR ''_'')
      in if length parts = 2 then parts ! 1 else [])"

text \<open>The semantic-version server (\<^verbatim>\<open>loadVersions\<close>): the candidate token of a file
  name, \<open>None\<close> where the callback returns before parsing.\<close>

definition versionStr :: "string \<Rightarrow> string option" where
  "versionStr filename =
     (let parts = Split filename (CHR ''_'')
      in if length parts < 2 then None
         else let base = TrimSuffix filename (Ext filename);
                  underscoreIdx = LastIndex base (CHR ''_'')
              in if underscoreIdx = -1 then None
                 else Some (drop (nat (underscoreIdx + 1)) base))"

section \<open>Paths and the file system\<close>

text \<open>
  A cleaned path is its list of elements and whether it is rooted. \<open>clean_elems\<close> is the
  element loop of \<^verbatim>\<open>filepath.Clean\<close>: empty elements and \<^verbatim>\<open>.\<close> are dropped, \<^verbatim>\<open>..\<close>
  removes the element before it, is dropped at the root of a rooted path and kept at the
  start of a relative one. \<open>out\<close> holds the elements kept so far, last first.
\<close>

type_synonym path = "bool \<times> string list"

fun clean_elems :: "bool \<Rightarrow> string list \<Rightarrow> string list \<Rightarrow> string list" where
  "clean_elems rooted [] out = rev out"
| "clean_elems rooted (e # es) out =
     (if e = [] \<or> e = ''.'' then clean_elems rooted es out
      else if e = ''..'' then
        (case out of
           [] \<Rightarrow> if rooted then clean_elems rooted es [] else clean_elems rooted es [e]
         | t # ts \<Rightarrow> if t = ''..'' then clean_elems rooted es (e # out)
                     else clean_elems rooted es ts)
      else clean_elems rooted es (e # out))"

definition Clean :: "string \<Rightarrow> path" where
  "Clean p =
     (let rooted = (p \<noteq> [] \<and> hd p = CHR ''/'')
      in (rooted, clean_elems rooted (Split p (CHR ''/'')) []))"

text \<open>\<^verbatim>\<open>filepath.Join(a, b)\<close>: the non-empty arguments joined by a separator, then cleaned.\<close>

definition Join :: "string \<Rightarrow> string \<Rightarrow> path" where
  "Join a b = Clean (if a = [] then b else if b = [] then a else a @ ''/'' @ b)"

text \<open>
  The name \<^verbatim>\<open>os.Lstat\<close> reports for a path as written (\<^verbatim>\<open>basename\<close> of package
  \<^verbatim>\<open>os\<close>): slashes at the end are removed, but not the first byte, and what follows the
  last remaining slash is the name. \<open>drop_slashes\<close> is the first loop, on the reversed
  string.
\<close>

fun drop_slashes :: "string \<Rightarrow> string" where
  "drop_slashes [] = []"
| "drop_slashes (c # r) = (if c = CHR ''/'' \<and> r \<noteq> [] then drop_slashes r else c # r)"

definition basename :: "string \<Rightarrow> string" where
  "basename name =
     (let name' = rev (drop_slashes (rev name))
      in if name' = ''/'' then name' else last (Split name' (CHR ''/'')))"

text \<open>
  The file system is a tree from \<^verbatim>\<open>/\<close> and the working directory of the process.
  A regular file holds its bytes, or \<open>None\<close> when it cannot be opened; a directory holds
  its entries in the order a directory read returns them (by name); \<open>DirUnreadable\<close> is a
  directory that cannot be read or searched. Symbolic links are not modelled.
\<close>

datatype node =
    File "string option"
  | Dir "(string \<times> node) list"
  | DirUnreadable

record filesystem =
  tree :: node
  cwd :: "string list"

datatype error = ErrNotExist | ErrOther

datatype stat_result = NotExist | StatError | Found node

fun lookup :: "node \<Rightarrow> string list \<Rightarrow> stat_result"
  and lookup_in :: "(string \<times> node) list \<Rightarrow> string \<Rightarrow> string list \<Rightarrow> stat_result" where
  "lookup n [] = Found n"
| "lookup (Dir es) (e # rest) = lookup_in es e rest"
| "lookup (File c) (e # rest) = StatError"
| "lookup DirUnreadable (e # rest) = StatError"
| "lookup_in [] e rest = NotExist"
| "lookup_in ((n, nd) # es) e rest = (if n = e then lookup nd rest else lookup_in es e rest)"

text \<open>
  Path resolution, as the kernel does it. \<open>namei\<close> walks the elements of a path from a
  position in the tree (the elements from the root to where it stands). Every element
  needs the position to be a directory: an empty element (between two slashes, or after
  a slash at the end) and \<^verbatim>\<open>.\<close> stay, \<^verbatim>\<open>..\<close> climbs (and stays at the root), a name
  descends. A name longer than \<open>NAME_MAX\<close> is refused. \<open>NotExist\<close> is the error
  \<^verbatim>\<open>os.IsNotExist\<close> accepts (\<^verbatim>\<open>ENOENT\<close>), \<open>StatError\<close> any other (\<^verbatim>\<open>ENOTDIR\<close>,
  \<^verbatim>\<open>EACCES\<close>, \<^verbatim>\<open>ENAMETOOLONG\<close>, \<^verbatim>\<open>EINVAL\<close>).
\<close>

definition NAME_MAX :: nat where
  "NAME_MAX = 255"

definition PATH_MAX :: nat where
  "PATH_MAX = 4096"

fun namei :: "node \<Rightarrow> string list \<Rightarrow> string list \<Rightarrow> stat_result" where
  "namei t pos [] = lookup t pos"
| "namei t pos (e # es) =
     (case lookup t pos of
        Found (Dir entries) \<Rightarrow>
          if e = [] \<or> e = ''.'' then namei t pos es
          else if e = ''..'' then namei t (butlast pos) es
          else if length e > NAME_MAX then StatError
          else namei t (pos @ [e]) es
      | Found (File c) \<Rightarrow> StatError
      | Found DirUnreadable \<Rightarrow> if e = [] then namei t pos es else StatError
      | NotExist \<Rightarrow> NotExist
      | StatError \<Rightarrow> StatError)"

text \<open>
  \<^verbatim>\<open>os.Lstat\<close> of a path as written (symbolic links are not modelled, so \<^verbatim>\<open>os.Stat\<close> of
  it is the same): a path with a NUL byte is refused before the system call, the empty
  path does not exist, a path of \<open>PATH_MAX\<close> bytes or more is too long.
\<close>

definition Lstat :: "filesystem \<Rightarrow> string \<Rightarrow> stat_result" where
  "Lstat fs name =
     (if CHR 0x00 \<in> set name then StatError
      else if name = [] then NotExist
      else if PATH_MAX \<le> length name then StatError
      else namei (tree fs) (if hd name = CHR ''/'' then [] else cwd fs)
             (Split name (CHR ''/'')))"

text \<open>\<^verbatim>\<open>os.Stat\<close> of a cleaned path, the result of \<open>Join\<close>. \<open>path_length\<close> is the number
  of bytes of the path written out.\<close>

definition path_length :: "path \<Rightarrow> nat" where
  "path_length p =
     (if snd p = [] then 1
      else (if fst p then 1 else 0) + sum_list (map length (snd p)) + (length (snd p) - 1))"

definition Stat :: "filesystem \<Rightarrow> path \<Rightarrow> stat_result" where
  "Stat fs p =
     (if CHR 0x00 \<in> set (concat (snd p)) then StatError
      else if PATH_MAX \<le> path_length p then StatError
      else namei (tree fs) (if fst p then [] else cwd fs) (snd p))"

fun IsDir :: "node \<Rightarrow> bool" where
  "IsDir (File c) = False"
| "IsDir (Dir es) = True"
| "IsDir DirUnreadable = True"

text \<open>
  \<^verbatim>\<open>filepath.Walk\<close>. The callback gets the name and kind of the entry and the error of
  reading it, works on the variables it captured (\<open>'s\<close>) and returns an error or nil.
  The walk calls it on the root and on every entry below it, directories before their
  entries, and stops at the first error the callback returns. The root is given to
  \<^verbatim>\<open>os.Lstat\<close> as it is written. The callbacks of this repository never return
  \<^verbatim>\<open>SkipDir\<close>, which is therefore not modelled.
\<close>

type_synonym 's WalkFunc = "string \<Rightarrow> bool \<Rightarrow> error option \<Rightarrow> 's \<Rightarrow> error option \<times> 's"

fun walk :: "'s WalkFunc \<Rightarrow> string \<Rightarrow> node \<Rightarrow> 's \<Rightarrow> error option \<times> 's"
  and walk_names :: "'s WalkFunc \<Rightarrow> (string \<times> node) list \<Rightarrow> 's \<Rightarrow> error option \<times> 's" where
  "walk fn name (File c) s = fn name False None s"
| "walk fn name DirUnreadable s = fn name True (Some ErrOther) s"
| "walk fn name (Dir es) s =
     (case fn name True None s of
        (Some e, s') \<Rightarrow> (Some e, s')
      | (None, s') \<Rightarrow> walk_names fn es s')"
| "walk_names fn [] s = (None, s)"
| "walk_names fn ((n, nd) # es) s =
     (case walk fn n nd s of
        (Some e, s') \<Rightarrow> (Some e, s')
      | (None, s') \<Rightarrow> walk_names fn es s')"

definition Walk :: "filesystem \<Rightarrow> string \<Rightarrow> 's WalkFunc \<Rightarrow> 's \<Rightarrow> error option \<times> 's" where
  "Walk fs root fn s =
     (case Lstat fs root of
        NotExist \<Rightarrow> fn (basename root) False (Some ErrNotExist) s
      | StatError \<Rightarrow> fn (basename root) False (Some ErrOther) s
      | Found nd \<Rightarrow> walk fn (basename root) nd s)"

text \<open>
  \<^verbatim>\<open>filepath.WalkDir\<close> differs in one place: a directory that cannot be read is first
  reported as a directory, then a second time with the error.
\<close>

fun walkDir :: "'s WalkFunc \<Rightarrow> string \<Rightarrow> node \<Rightarrow> 's \<Rightarrow> error option \<times> 's"
  and walkDir_names :: "'s WalkFunc \<Rightarrow> (string \<times> node) list \<Rightarrow> 's \<Rightarrow> error option \<times> 's" where
  "walkDir fn name (File c) s = fn name False None s"
| "walkDir fn name DirUnreadable s =
     (case fn name True None s of
        (Some e, s') \<Rightarrow> (Some e, s')
      | (None, s') \<Rightarrow> fn name True (Some ErrOther) s')"
| "walkDir fn name (Dir es) s =
     (case fn name True None s of
        (Some e, s') \<Rightarrow> (Some e, s')
      | (None, s') \<Rightarrow> walkDir_names fn es s')"
| "walkDir_names fn [] s = (None, s)"
| "walkDir_names fn ((n, nd) # es) s =
     (case walkDir fn n nd s of
        (Some e, s') \<Rightarrow> (Some e, s')
      | (None, s') \<Rightarrow> walkDir_names fn es s')"

definition WalkDir :: "filesystem \<Rightarrow> string \<Rightarrow> 's WalkFunc \<Rightarrow> 's \<Rightarrow> error option \<times> 's" where
  "WalkDir fs root fn s =
     (case Lstat fs root of
        NotExist \<Rightarrow> fn (basename root) False (Some ErrNotExist) s
      | StatError \<Rightarrow> fn (basename root) False (Some ErrOther) s
      | Found nd \<Rightarrow> walkDir fn (basename root) nd s)"

section \<open>Responses\<close>

text \<open>The JSON body of the gin server's check endpoints. Both optional fields are
  \<^verbatim>\<open>omitempty\<close>: an empty string means the field is absent from the response.\<close>

record VersionInfo =
  LatestVersion :: string
  DownloadURL :: string
  CheckSum :: string

text \<open>The JSON body of the semantic-version server's check endpoint; \<open>download_url\<close> is
  a key of the map only when an update is offered.\<close>

record CheckResponse =
  update_available :: bool
  latest_version :: string
  download_url :: "string option"

text \<open>What \<^verbatim>\<open>http.ServeFile\<close> sends for a path: the bytes of a regular file; its own
  answer for a directory (a redirect to the URL with a slash at its end, or the index
  file or a listing of the directory); or an error status when it cannot open the path.\<close>

datatype served = Content string | DirectoryReply | ServeError

text \<open>
  A response is an error status with its message, the JSON body of a check, a served
  file with the name of its \<^verbatim>\<open>Content-Disposition\<close> header (if the handler sets one), or
  a run-time panic of the handler.
\<close>

datatype response =
    Error nat string
  | Info VersionInfo
  | Checked CheckResponse
  | Served "string option" path served
  | Panic

text \<open>The file system calls a download handler makes, in order.\<close>

datatype fs_op = OpStat path | OpOpen path

definition ServeFile :: "filesystem \<Rightarrow> path \<Rightarrow> served" where
  "ServeFile fs p =
     (case Stat fs p of
        Found (File (Some bytes)) \<Rightarrow> Content bytes
      | Found (Dir es) \<Rightarrow> DirectoryReply
      | _ \<Rightarrow> ServeError)"

section \<open>The gin server\<close>

definition otaFilesPath :: string where
  "otaFilesPath = ''./ota_files/''"

text \<open>The callback of \<open>getAvailableVersions\<close>; the captured variable is the slice
  \<open>versions\<close>.\<close>

definition versions_fn :: "string list WalkFunc" where
  "versions_fn name isDir err versions =
     (case err of
        Some e \<Rightarrow> (Some e, versions)
      | None \<Rightarrow>
          if \<not> isDir then
            (let version = extractVersionFromFile name
             in if version \<noteq> [] then (None, versions @ [version]) else (None, versions))
          else (None, versions))"

text \<open>Returns the slice together with the error of the walk, as the source does.\<close>

definition getAvailableVersions :: "filesystem \<Rightarrow> string list \<times> error option" where
  "getAvailableVersions fs =
     (case Walk fs otaFilesPath versions_fn [] of (err, versions) \<Rightarrow> (versions, err))"

text \<open>\<^verbatim>\<open>hex.EncodeToString\<close>.\<close>

definition hexdigit :: "nat \<Rightarrow> char" where
  "hexdigit n = ''0123456789abcdef'' ! n"

definition EncodeToString :: "string \<Rightarrow> string" where
  "EncodeToString bytes =
     concat (map (\<lambda>b. [hexdigit (of_char b div 16), hexdigit (of_char b mod 16)]) bytes)"

text \<open>
  \<open>CalculateChecksum\<close>. The digest \<^verbatim>\<open>crypto/sha256\<close> is a function of the Go library
  and a parameter here (\<open>sha256\<close>, from the bytes of the file to the bytes of the
  digest). Opening fails for a missing or unreadable path; a directory opens, and reading
  it fails.
\<close>

datatype checksum_error = OpenFailed | CopyFailed

definition CalculateChecksum ::
  "(string \<Rightarrow> string) \<Rightarrow> filesystem \<Rightarrow> path \<Rightarrow> checksum_error + string" where
  "CalculateChecksum sha256 fs filePath =
     (case Stat fs filePath of
        Found (File (Some bytes)) \<Rightarrow> Inr (EncodeToString (sha256 bytes))
      | Found (Dir es) \<Rightarrow> Inl CopyFailed
      | _ \<Rightarrow> Inl OpenFailed)"

text \<open>
  \<open>checkForUpdate\<close> of the server with checksums (the first program of \<^verbatim>\<open>main.go\<close>).
  \<^verbatim>\<open>versions[len(versions)-1]\<close> panics on an empty slice.
\<close>

definition checkForUpdate :: "(string \<Rightarrow> string) \<Rightarrow> filesystem \<Rightarrow> string \<Rightarrow> response" where
  "checkForUpdate sha256 fs currentVersion =
     (if currentVersion = [] then Error 400 ''current_version is required''
      else case getAvailableVersions fs of
        (versions, Some err) \<Rightarrow> Error 500 ''Could not fetch available versions''
      | (versions, None) \<Rightarrow>
          (let versions = sort versions
           in if versions = [] then Panic
              else
                let latestVersion = versions ! (length versions - 1);
                    fileName = ''plugin_'' @ latestVersion @ ''.wasm'';
                    filePath = Join otaFilesPath fileName
                in case CalculateChecksum sha256 fs filePath of
                     Inl err \<Rightarrow> Error 500 ''Error calculating checksum''
                   | Inr checksum \<Rightarrow>
                       if latestVersion > currentVersion
                       then Info \<lparr>LatestVersion = latestVersion,
                                   DownloadURL = ''/download?version='' @ latestVersion,
                                   CheckSum = checksum\<rparr>
                       else Info \<lparr>LatestVersion = latestVersion,
                                   DownloadURL = [], CheckSum = []\<rparr>))"

text \<open>
  The check endpoints without a checksum: \<open>checkForUpdateBlinkOne\<close>,
  \<open>checkForUpdateBlinkFive\<close> and the \<open>checkForUpdate\<close> of the second program of
  \<^verbatim>\<open>main.go\<close> have the same body and differ in the format of the download URL, the
  parameter \<open>url\<close> of \<open>checkLatest\<close>.
\<close>

definition checkLatest :: "string \<Rightarrow> filesystem \<Rightarrow> string \<Rightarrow> response" where
  "checkLatest url fs currentVersion =
     (if currentVersion = [] then Error 400 ''current_version is required''
      else case getAvailableVersions fs of
        (versions, Some err) \<Rightarrow> Error 500 ''Could not fetch available versions''
      | (versions, None) \<Rightarrow>
          (let versions = sort versions
           in if versions = [] then Panic
              else
                let latestVersion = versions ! (length versions - 1)
                in if latestVersion > currentVersion
                   then Info \<lparr>LatestVersion = latestVersion,
                               DownloadURL = url @ latestVersion, CheckSum = []\<rparr>
                   else Info \<lparr>LatestVersion = latestVersion,
                               DownloadURL = [], CheckSum = []\<rparr>))"

definition checkForUpdateBlinkOne :: "filesystem \<Rightarrow> string \<Rightarrow> response" where
  "checkForUpdateBlinkOne = checkLatest ''/download-blink-one?version=''"

definition checkForUpdateBlinkFive :: "filesystem \<Rightarrow> string \<Rightarrow> response" where
  "checkForUpdateBlinkFive = checkLatest ''/download-blink-five?version=''"

definition checkForUpdate_plain :: "filesystem \<Rightarrow> string \<Rightarrow> response" where
  "checkForUpdate_plain = checkLatest ''/download?version=''"

text \<open>
  The download endpoints have one body too and differ in the file name they build:
  \<^verbatim>\<open>plugin_%s.wasm\<close>, \<^verbatim>\<open>one-second-delay_%s.wasm\<close>, \<^verbatim>\<open>five-second-delay_%s.wasm\<close>, and
  \<^verbatim>\<open>app_%s.wasm\<close> in the second program. Only a missing path stops the handler before
  \<^verbatim>\<open>c.File\<close>.
\<close>

definition downloadFile :: "string \<Rightarrow> filesystem \<Rightarrow> string \<Rightarrow> response \<times> fs_op list" where
  "downloadFile prefix fs requestedVersion =
     (if requestedVersion = [] then (Error 400 ''version is required'', [])
      else
        let fileName = prefix @ requestedVersion @ ''.wasm'';
            filePath = Join otaFilesPath fileName
        in case Stat fs filePath of
             NotExist \<Rightarrow> (Error 404 ''version not found'', [OpStat filePath])
           | _ \<Rightarrow> (Served (Some fileName) filePath (ServeFile fs filePath),
                    [OpStat filePath, OpOpen filePath]))"

definition downloadNewVersion :: "filesystem \<Rightarrow> string \<Rightarrow> response \<times> fs_op list" where
  "downloadNewVersion = downloadFile ''plugin_''"

definition downloadNewVersionBlinkOne :: "filesystem \<Rightarrow> string \<Rightarrow> response \<times> fs_op list" where
  "downloadNewVersionBlinkOne = downloadFile ''one-second-delay_''"

definition downloadNewVersionBlinkFive :: "filesystem \<Rightarrow> string \<Rightarrow> response \<times> fs_op list" where
  "downloadNewVersionBlinkFive = downloadFile ''five-second-delay_''"

definition downloadNewVersion_plain :: "filesystem \<Rightarrow> string \<Rightarrow> response \<times> fs_op list" where
  "downloadNewVersion_plain = downloadFile ''app_''"

section \<open>The semantic-version server\<close>

text \<open>
  Modelled from the spec: the library \<^verbatim>\<open>github.com/Masterminds/semver/v3\<close> is not part of
  the repository. The spec describes a parsed semantic version as a value "compared by
  major/minor/patch/pre-release precedence": here a parsed version is its precedence, an
  element of a linear order \<open>'p\<close>, and the text its \<^verbatim>\<open>String()\<close> method prints. Two
  versions that differ in build metadata only have one precedence and two texts. The
  parser \<^verbatim>\<open>semver.NewVersion\<close> is a parameter of the functions that call it.
\<close>

record 'p SemVersion =
  precedence :: 'p
  canonical :: string

definition LessThan :: "('p::linorder) SemVersion \<Rightarrow> 'p SemVersion \<Rightarrow> bool" where
  "LessThan v w = (precedence v < precedence w)"

definition GreaterThan :: "('p::linorder) SemVersion \<Rightarrow> 'p SemVersion \<Rightarrow> bool" where
  "GreaterThan v w = (precedence w < precedence v)"

text \<open>The struct \<^verbatim>\<open>VersionInfo\<close> of this server (the gin server has one of the same name)
  and the server itself.\<close>

record 'p VersionInfo_sv =
  Version :: "'p SemVersion"
  FileName :: string
  DownloadURL_sv :: string

record 'p Server =
  FilesDir :: string
  BaseURL :: string
  Versions :: "'p VersionInfo_sv list"

text \<open>The callback of \<open>loadVersions\<close>; the captured variable is the slice \<open>versions\<close>.\<close>

definition loadVersions_fn ::
  "(string \<Rightarrow> 'p SemVersion option) \<Rightarrow> string \<Rightarrow> 'p VersionInfo_sv list WalkFunc" where
  "loadVersions_fn NewVersion baseURL filename isDir err versions =
     (case err of
        Some e \<Rightarrow> (Some e, versions)
      | None \<Rightarrow>
          if isDir then (None, versions)
          else case versionStr filename of
            None \<Rightarrow> (None, versions)
          | Some vstr \<Rightarrow>
              (case NewVersion vstr of
                 None \<Rightarrow> (None, versions)
               | Some version \<Rightarrow>
                   (None, versions @
                      [\<lparr>Version = version, FileName = filename,
                        DownloadURL_sv = baseURL @ ''/download?file='' @ filename\<rparr>])))"

text \<open>
  \<^verbatim>\<open>sort.Slice\<close> is a function of the Go library and a parameter of \<open>loadVersions\<close>
  (\<open>Slice\<close>, from the comparison and the slice to the slice as it is left). Its
  documentation promises a rearrangement of the slice that is in order for the comparison,
  and does not promise a stable one: among entries of equal precedence any order can come
  out. \<open>Slice_sorts\<close> is that promise for one comparison.
\<close>

definition Slice_sorts :: "(('a \<Rightarrow> 'a \<Rightarrow> bool) \<Rightarrow> 'a list \<Rightarrow> 'a list) \<Rightarrow> ('a \<Rightarrow> 'a \<Rightarrow> bool) \<Rightarrow> bool" where
  "Slice_sorts Slice lt =
     (\<forall>xs. mset (Slice lt xs) = mset xs \<and>
           sorted_wrt (\<lambda>a b. \<not> lt b a) (Slice lt xs))"

text \<open>The comparison \<open>loadVersions\<close> gives to \<^verbatim>\<open>sort.Slice\<close>.\<close>

definition version_less :: "('p::linorder) VersionInfo_sv \<Rightarrow> 'p VersionInfo_sv \<Rightarrow> bool" where
  "version_less a b = LessThan (Version a) (Version b)"

text \<open>\<open>loadVersions\<close> returns the server with its catalog, or the error of the walk.\<close>

definition loadVersions ::
  "(string \<Rightarrow> ('p::linorder) SemVersion option) \<Rightarrow>
   (('p VersionInfo_sv \<Rightarrow> 'p VersionInfo_sv \<Rightarrow> bool) \<Rightarrow> 'p VersionInfo_sv list \<Rightarrow> 'p VersionInfo_sv list) \<Rightarrow>
   filesystem \<Rightarrow> 'p Server \<Rightarrow> error + 'p Server" where
  "loadVersions NewVersion Slice fs s =
     (case WalkDir fs (FilesDir s) (loadVersions_fn NewVersion (BaseURL s)) [] of
        (Some err, versions) \<Rightarrow> Inl err
      | (None, versions) \<Rightarrow> Inr (s\<lparr>Versions := Slice version_less versions\<rparr>))"

definition NewServer ::
  "(string \<Rightarrow> ('p::linorder) SemVersion option) \<Rightarrow>
   (('p VersionInfo_sv \<Rightarrow> 'p VersionInfo_sv \<Rightarrow> bool) \<Rightarrow> 'p VersionInfo_sv list \<Rightarrow> 'p VersionInfo_sv list) \<Rightarrow>
   filesystem \<Rightarrow> string \<Rightarrow> string \<Rightarrow> error + 'p Server" where
  "NewServer NewVersion Slice fs filesDir baseURL =
     loadVersions NewVersion Slice fs
       \<lparr>FilesDir = filesDir, BaseURL = baseURL, Versions = []\<rparr>"

text \<open>The loop of \<open>handleCheck\<close>: every entry greater than the client's version
  overwrites \<open>latestAvailable\<close>.\<close>

fun latest_loop ::
  "('p::linorder) SemVersion \<Rightarrow> 'p VersionInfo_sv list \<Rightarrow> 'p VersionInfo_sv option
     \<Rightarrow> 'p VersionInfo_sv option" where
  "latest_loop currentVersion [] latestAvailable = latestAvailable"
| "latest_loop currentVersion (v # vs) latestAvailable =
     latest_loop currentVersion vs
       (if GreaterThan (Version v) currentVersion then Some v else latestAvailable)"

definition handleCheck ::
  "(string \<Rightarrow> ('p::linorder) SemVersion option) \<Rightarrow> 'p Server \<Rightarrow> string \<Rightarrow> response" where
  "handleCheck NewVersion s currentVersionStr =
     (if currentVersionStr = [] then Error 400 ''Missing 'current_version' parameter''
      else case NewVersion currentVersionStr of
        None \<Rightarrow> Error 400 ''Invalid 'current_version' format''
      | Some currentVersion \<Rightarrow>
          (case latest_loop currentVersion (Versions s) None of
             Some latestAvailable \<Rightarrow>
               Checked \<lparr>update_available = True,
                        latest_version = canonical (Version latestAvailable),
                        download_url = Some (DownloadURL_sv latestAvailable)\<rparr>
           | None \<Rightarrow>
               (let latestVersion =
                      (if length (Versions s) > 0
                       then canonical (Version (Versions s ! (length (Versions s) - 1)))
                       else ''0.0.0'')
                in Checked \<lparr>update_available = False, latest_version = latestVersion,
                            download_url = None\<rparr>)))"

text \<open>
  \<open>handleDownload\<close>. After a \<^verbatim>\<open>Stat\<close> error other than "not exist" the handler calls
  \<^verbatim>\<open>fi.IsDir()\<close> on a nil \<^verbatim>\<open>FileInfo\<close>, which panics.
\<close>

definition handleDownload :: "'p Server \<Rightarrow> filesystem \<Rightarrow> string \<Rightarrow> response \<times> fs_op list" where
  "handleDownload s fs file =
     (if file = [] then (Error 400 ''Missing 'file' parameter'', [])
      else if Contains file (CHR ''/'') \<or> Contains file (CHR 0x5C)
      then (Error 400 ''Invalid 'file' parameter'', [])
      else
        let filePath = Join (FilesDir s) file
        in case Stat fs filePath of
             NotExist \<Rightarrow> (Error 404 ''File not found'', [OpStat filePath])
           | StatError \<Rightarrow> (Panic, [OpStat filePath])
           | Found fi \<Rightarrow>
               if IsDir fi
               then (Error 400 ''Requested file is a directory'', [OpStat filePath])
               else (Served None filePath (ServeFile fs filePath),
                     [OpStat filePath, OpOpen filePath]))"

section \<open>Instances for the examples\<close>

text \<open>
  The examples need a parser, a sort and a digest. \<open>NewVersion_strict\<close> reads
  \<^verbatim>\<open>MAJOR.MINOR.PATCH\<close>, three decimal numbers without leading zeros; its precedence is
  the list of the three numbers in lexicographic order, and its text is the input.
  \<open>insertion_sort\<close> sorts by a comparison. \<open>byte_sum\<close>, the sum of the bytes modulo 256,
  stands in for SHA-256. The theorems are stated for every parser, every sort that keeps
  the promise of \<^verbatim>\<open>sort.Slice\<close>, and every digest.
\<close>

fun insert_by :: "('a \<Rightarrow> 'a \<Rightarrow> bool) \<Rightarrow> 'a \<Rightarrow> 'a list \<Rightarrow> 'a list" where
  "insert_by lt x [] = [x]"
| "insert_by lt x (y # ys) =
     (if lt y x then y # insert_by lt x ys else x # y # ys)"

fun insertion_sort :: "('a \<Rightarrow> 'a \<Rightarrow> bool) \<Rightarrow> 'a list \<Rightarrow> 'a list" where
  "insertion_sort lt [] = []"
| "insertion_sort lt (x # xs) = insert_by lt x (insertion_sort lt xs)"

definition digit_val :: "char \<Rightarrow> nat option" where
  "digit_val c =
     (if CHR ''0'' \<le> c \<and> c \<le> CHR ''9'' then Some (of_char c - of_char (CHR ''0'')) else None)"

fun parse_digits :: "string \<Rightarrow> nat \<Rightarrow> nat option" where
  "parse_digits [] acc = Some acc"
| "parse_digits (c # cs) acc =
     (case digit_val c of None \<Rightarrow> None | Some d \<Rightarrow> parse_digits cs (10 * acc + d))"

definition parse_number :: "string \<Rightarrow> nat option" where
  "parse_number s =
     (if s = [] \<or> (length s > 1 \<and> hd s = CHR ''0'') then None else parse_digits s 0)"

definition NewVersion_strict :: "string \<Rightarrow> nat list SemVersion option" where
  "NewVersion_strict s =
     (case map parse_number (Split s (CHR ''.'')) of
        [Some major, Some minor, Some patch] \<Rightarrow>
          Some \<lparr>precedence = [major, minor, patch], canonical = s\<rparr>
      | _ \<Rightarrow> None)"

definition byte_sum :: "string \<Rightarrow> string" where
  "byte_sum bytes = [char_of (sum_list (map of_char bytes) mod (256::nat))]"

section \<open>The check handler as the spec words it\<close>

text \<open>
  The simpler definition the check handler is compared with: take the maximum of the
  catalog, compare it with the client's version, and offer it. \<open>max_entry\<close> is the entry
  of greatest precedence, the later one among equals.
\<close>

fun max_entry :: "('p::linorder) VersionInfo_sv list \<Rightarrow> 'p VersionInfo_sv option" where
  "max_entry [] = None"
| "max_entry (v # vs) =
     (case max_entry vs of
        None \<Rightarrow> Some v
      | Some m \<Rightarrow>
          if precedence (Version m) < precedence (Version v) then Some v else Some m)"

definition handleCheck_spec ::
  "(string \<Rightarrow> ('p::linorder) SemVersion option) \<Rightarrow> 'p Server \<Rightarrow> string \<Rightarrow> response" where
  "handleCheck_spec NewVersion s currentVersionStr =
     (if currentVersionStr = [] then Error 400 ''Missing 'current_version' parameter''
      else case NewVersion currentVersionStr of
        None \<Rightarrow> Error 400 ''Invalid 'current_version' format''
      | Some currentVersion \<Rightarrow>
          (case max_entry (Versions s) of
             None \<Rightarrow>
               Checked \<lparr>update_available = False, latest_version = ''0.0.0'',
                        download_url = None\<rparr>
           | Some m \<Rightarrow>
               if GreaterThan (Version m) currentVersion
               then Checked \<lparr>update_available = True,
                             latest_version = canonical (Version m),
                             download_url = Some (DownloadURL_sv m)\<rparr>
               else Checked \<lparr>update_available = False,
                             latest_version = canonical (Version m),
                             download_url = None\<rparr>))"

section \<open>Example states\<close>

text \<open>An artifact directory of the semantic-version server whose order by file name is
  not the order by version, and the server \<open>NewServer\<close> builds from it.\<close>

definition fs_releases :: filesystem where
  "fs_releases =
     \<lparr>tree = Dir [(''files'',
         Dir [(''app_10.0.0.zip'', File (Some ''ten'')),
              (''app_2.0.0.zip'', File (Some ''two'')),
              (''app_9.0.0.zip'', File (Some ''nine''))])],
      cwd = []\<rparr>"

definition srv_releases :: "nat list Server" where
  "srv_releases =
     \<lparr>FilesDir = ''./files'', BaseURL = ''http://localhost:8080'',
      Versions =
        [\<lparr>Version = \<lparr>precedence = [2, 0, 0], canonical = ''2.0.0''\<rparr>,
          FileName = ''app_2.0.0.zip'',
          DownloadURL_sv = ''http://localhost:8080/download?file=app_2.0.0.zip''\<rparr>,
         \<lparr>Version = \<lparr>precedence = [9, 0, 0], canonical = ''9.0.0''\<rparr>,
          FileName = ''app_9.0.0.zip'',
          DownloadURL_sv = ''http://localhost:8080/download?file=app_9.0.0.zip''\<rparr>,
         \<lparr>Version = \<lparr>precedence = [10, 0, 0], canonical = ''10.0.0''\<rparr>,
          FileName = ''app_10.0.0.zip'',
          DownloadURL_sv = ''http://localhost:8080/download?file=app_10.0.0.zip''\<rparr>]\<rparr>"

text \<open>A directory of the gin server with two versions of the plugin.\<close>

definition fs_plugin :: filesystem where
  "fs_plugin =
     \<lparr>tree = Dir [(''ota_files'',
         Dir [(''plugin_1.0.0.wasm'', File (Some ''old'')),
              (''plugin_1.2.0.wasm'', File (Some ''new''))])],
      cwd = []\<rparr>"

text \<open>An artifact directory with no file in it.\<close>

definition fs_empty :: filesystem where
  "fs_empty = \<lparr>tree = Dir [(''ota_files'', Dir [])], cwd = []\<rparr>"

text \<open>A working directory that holds a file beside the artifact directory.\<close>

definition fs_secret :: filesystem where
  "fs_secret =
     \<lparr>tree = Dir [(''srv'',
         Dir [(''ota_files'', Dir [(''plugin_1.0.0.wasm'', File (Some ''old''))]),
              (''secret.wasm'', File (Some ''key''))])],
      cwd = [''srv'']\<rparr>"

text \<open>An artifact directory in which the name of a plugin file is taken by a
  directory.\<close>

definition fs_dir :: filesystem where
  "fs_dir =
     \<lparr>tree = Dir [(''ota_files'',
         Dir [(''plugin_1.0.0.wasm'', Dir [(''index.html'', File (Some ''page''))])])],
      cwd = []\<rparr>"

section \<open>What a walk visits\<close>

text \<open>
  For stating what the scans collect: the names of the regular files at or below a node,
  in the order of the walk, and whether every directory at or below it can be read.
\<close>

fun files_of :: "string \<Rightarrow> node \<Rightarrow> string list"
  and files_in :: "(string \<times> node) list \<Rightarrow> string list" where
  "files_of name (File c) = [name]"
| "files_of name (Dir es) = files_in es"
| "files_of name DirUnreadable = []"
| "files_in [] = []"
| "files_in ((n, nd) # es) = files_of n nd @ files_in es"

fun readable :: "node \<Rightarrow> bool"
  and readable_all :: "(string \<times> node) list \<Rightarrow> bool" where
  "readable (File c) = True"
| "readable (Dir es) = readable_all es"
| "readable DirUnreadable = False"
| "readable_all [] = True"
| "readable_all ((n, nd) # es) = (readable nd \<and> readable_all es)"

text \<open>The tokens \<open>getAvailableVersions\<close> keeps of a list of file names, and the entry
  \<open>loadVersions\<close> makes of a file name, if it makes one.\<close>

definition tokens_of :: "string list \<Rightarrow> string list" where
  "tokens_of names = filter (\<lambda>v. v \<noteq> []) (map extractVersionFromFile names)"

definition entry_of ::
  "(string \<Rightarrow> 'p SemVersion option) \<Rightarrow> string \<Rightarrow> string \<Rightarrow> 'p VersionInfo_sv option" where
  "entry_of NewVersion baseURL filename =
     (case versionStr filename of
        None \<Rightarrow> None
      | Some vstr \<Rightarrow>
          (case NewVersion vstr of
             None \<Rightarrow> None
           | Some version \<Rightarrow>
               Some \<lparr>Version = version, FileName = filename,
                     DownloadURL_sv = baseURL @ ''/download?file='' @ filename\<rparr>))"

definition entries_of ::
  "(string \<Rightarrow> 'p SemVersion option) \<Rightarrow> string \<Rightarrow> string list \<Rightarrow> 'p VersionInfo_sv list" where
  "entries_of NewVersion baseURL names =
     concat (map (\<lambda>f. case entry_of NewVersion baseURL f of None \<Rightarrow> [] | Some e \<Rightarrow> [e]) names)"

text \<open>Artifact directories whose only versioned file lies in a subdirectory, one that
  has a directory named like an artifact, and one with a subdirectory that cannot be
  read.\<close>

definition fs_nested :: filesystem where
  "fs_nested =
     \<lparr>tree = Dir [(''ota_files'',
         Dir [(''archive'', Dir [(''plugin_9.9.9.wasm'', File (Some ''deep''))])]),
       (''files'',
         Dir [(''archive'', Dir [(''app_9.9.9.zip'', File (Some ''deep''))])])],
      cwd = []\<rparr>"

definition fs_dirname :: filesystem where
  "fs_dirname =
     \<lparr>tree = Dir [(''ota_files'',
         Dir [(''plugin_1.0.0.wasm'', File (Some ''old'')),
              (''plugin_7.0.0.wasm'', Dir [])])],
      cwd = []\<rparr>"

definition fs_locked :: filesystem where
  "fs_locked =
     \<lparr>tree = Dir [(''ota_files'',
         Dir [(''plugin_1.0.0.wasm'', File (Some ''old'')),
              (''private'', DirUnreadable)])],
      cwd = []\<rparr>"

text \<open>The directory \<open>fs_plugin\<close> after the newer plugin has been rebuilt, and a
  directory that holds an artifact of the one-second family only.\<close>

definition fs_plugin_rebuilt :: filesystem where
  "fs_plugin_rebuilt =
     \<lparr>tree = Dir [(''ota_files'',
         Dir [(''plugin_1.0.0.wasm'', File (Some ''old'')),
              (''plugin_1.2.0.wasm'', File (Some ''newer''))])],
      cwd = []\<rparr>"

definition fs_one :: filesystem where
  "fs_one =
     \<lparr>tree = Dir [(''ota_files'',
         Dir [(''one-second-delay_1.0.0.wasm'', File (Some ''blink''))])],
      cwd = []\<rparr>"

text \<open>The server \<open>NewServer\<close> builds from \<open>fs_nested\<close>.\<close>

definition srv_nested :: "nat list Server" where
  "srv_nested =
     \<lparr>FilesDir = ''./files'', BaseURL = ''http://localhost:8080'',
      Versions =
        [\<lparr>Version = \<lparr>precedence = [9, 9, 9], canonical = ''9.9.9''\<rparr>,
          FileName = ''app_9.9.9.zip'',
          DownloadURL_sv = ''http://localhost:8080/download?file=app_9.9.9.zip''\<rparr>]\<rparr>"

text \<open>A working directory in which \<^verbatim>\<open>ota_files\<close> is a regular file.\<close>

definition fs_rootfile :: filesystem where
  "fs_rootfile = \<lparr>tree = Dir [(''ota_files'', File (Some ''oops''))], cwd = []\<rparr>"

section \<open>Order lemmas\<close>

lemma sorted_le_last:
  fixes xs :: "('a::linorder) list"
  shows "sorted xs \<Longrightarrow> x \<in> set xs \<Longrightarrow> x \<le> last xs"
  by (induction xs) auto

lemma sorted_last_Max:
  fixes xs :: "('a::linorder) list"
  assumes "sorted xs" and "xs \<noteq> []"
  shows "last xs = Max (set xs)"
proof -
  have "Max (set xs) = last xs"
  proof (rule Max_eqI)
    show "finite (set xs)" by simp
    show "\<And>y. y \<in> set xs \<Longrightarrow> y \<le> last xs" using assms(1) by (rule sorted_le_last)
    show "last xs \<in> set xs" using assms(2) by simp
  qed
  then show ?thesis by simp
qed

lemma last_sort_Max:
  fixes xs :: "('a::linorder) list"
  shows "xs \<noteq> [] \<Longrightarrow> sort xs ! (length (sort xs) - 1) = Max (set xs)"
proof -
  assume ne: "xs \<noteq> []"
  then have ne': "sort xs \<noteq> []" by (metis length_0_conv length_sort)
  have "sort xs ! (length (sort xs) - 1) = last (sort xs)"
    using ne' by (simp add: last_conv_nth)
  also have "\<dots> = Max (set (sort xs))"
    using ne' by (intro sorted_last_Max) simp_all
  finally show ?thesis by simp
qed

lemma max_entry_sorted:
  "sorted (map (\<lambda>v. precedence (Version v)) vs) \<Longrightarrow>
   max_entry vs = (if vs = [] then None else Some (last vs))"
proof (induction vs)
  case Nil
  then show ?case by simp
next
  case (Cons v vs)
  show ?case
  proof (cases "vs = []")
    case True
    then show ?thesis by simp
  next
    case False
    then have "last vs \<in> set vs" by simp
    with Cons.prems have "precedence (Version v) \<le> precedence (Version (last vs))"
      by auto
    then have nl: "\<not> precedence (Version (last vs)) < precedence (Version v)"
      by simp
    from Cons.prems have "sorted (map (\<lambda>v. precedence (Version v)) vs)" by simp
    then have "max_entry vs = Some (last vs)" using Cons.IH False by simp
    then show ?thesis using nl False by simp
  qed
qed

lemma latest_loop_sorted:
  "sorted (map (\<lambda>v. precedence (Version v)) vs) \<Longrightarrow>
   latest_loop c vs acc =
     (if vs \<noteq> [] \<and> precedence c < precedence (Version (last vs)) then Some (last vs) else acc)"
proof (induction vs arbitrary: acc)
  case Nil
  then show ?case by simp
next
  case (Cons v vs)
  show ?case
  proof (cases "vs = []")
    case True
    then show ?thesis by (simp add: GreaterThan_def)
  next
    case False
    then have "last vs \<in> set vs" by simp
    with Cons.prems have le: "precedence (Version v) \<le> precedence (Version (last vs))"
      by auto
    from Cons.prems have s: "sorted (map (\<lambda>v. precedence (Version v)) vs)" by simp
    show ?thesis
      using Cons.IH[OF s] False le by (auto simp: GreaterThan_def)
  qed
qed

section \<open>The sort of the catalog\<close>

lemma mset_insert_by: "mset (insert_by lt x xs) = add_mset x (mset xs)"
  by (induction xs) auto

lemma mset_insertion_sort: "mset (insertion_sort lt xs) = mset xs"
  by (induction xs) (auto simp: mset_insert_by)

lemma set_insert_by: "set (insert_by lt x xs) = insert x (set xs)"
  by (induction xs) auto

lemma sorted_insert_by:
  fixes f :: "'a \<Rightarrow> 'b::linorder"
  shows "sorted (map f xs) \<Longrightarrow> sorted (map f (insert_by (\<lambda>a b. f a < f b) x xs))"
  by (induction xs) (auto simp: set_insert_by)

lemma sorted_insertion_sort:
  fixes f :: "'a \<Rightarrow> 'b::linorder"
  shows "sorted (map f (insertion_sort (\<lambda>a b. f a < f b) xs))"
  by (induction xs) (auto simp: sorted_insert_by)

lemma sorted_wrt_version_less:
  "sorted_wrt (\<lambda>a b. \<not> version_less b a) vs = sorted (map (\<lambda>v. precedence (Version v)) vs)"
  by (simp add: version_less_def LessThan_def sorted_map not_less)

lemma version_less_key:
  "version_less = (\<lambda>a b. precedence (Version a) < precedence (Version b))"
  by (simp add: version_less_def LessThan_def fun_eq_iff)

lemma insertion_sort_sorts: "Slice_sorts insertion_sort version_less"
  unfolding Slice_sorts_def sorted_wrt_version_less
  by (simp add: mset_insertion_sort version_less_key sorted_insertion_sort)

lemma loadVersions_sorted:
  assumes "Slice_sorts Slice version_less" and "loadVersions NewVersion Slice fs s0 = Inr s"
  shows "sorted (map (\<lambda>v. precedence (Version v)) (Versions s))"
proof -
  from assms(2) obtain versions where "s = s0\<lparr>Versions := Slice version_less versions\<rparr>"
    by (auto simp: loadVersions_def split: prod.splits option.splits)
  then show ?thesis
    using assms(1) by (simp add: Slice_sorts_def sorted_wrt_version_less)
qed


section \<open>The check handler and its simpler definition\<close>

text \<open>
  C10. In the semantic-version server the catalog \<open>loadVersions\<close> builds is ascending by
  precedence, and on it the loop of the check handler, which keeps the last entry greater
  than the client's version, gives the same response as the simpler definition that
  compares the maximum of the catalog with the client's version and offers it. The same
  holds on every catalog that is ascending by precedence.
\<close>

theorem handleCheck_refines:
  "(Slice_sorts Slice version_less \<and> loadVersions NewVersion Slice fs s0 = Inr s \<longrightarrow>
      sorted (map (\<lambda>v. precedence (Version v)) (Versions s)) \<and>
      handleCheck NewVersion s cur = handleCheck_spec NewVersion s cur) \<and>
   (sorted (map (\<lambda>v. precedence (Version v)) (Versions s')) \<longrightarrow>
      handleCheck NewVersion s' cur = handleCheck_spec NewVersion s' cur)"
proof -
  have general: "handleCheck NewVersion t cur = handleCheck_spec NewVersion t cur"
    if srt: "sorted (map (\<lambda>v. precedence (Version v)) (Versions t))" for t
  proof (cases "Versions t = []")
    case True
    then show ?thesis
      by (simp add: handleCheck_def handleCheck_spec_def split: option.splits)
  next
    case False
    then show ?thesis
      using latest_loop_sorted[OF srt] max_entry_sorted[OF srt]
      by (simp add: handleCheck_def handleCheck_spec_def GreaterThan_def last_conv_nth
          split: option.splits)
  qed
  show ?thesis
    using general loadVersions_sorted [of Slice NewVersion fs s0 s] by blast
qed

theorem handleCheck_refines_witness:
  "Slice_sorts insertion_sort (version_less :: nat list VersionInfo_sv \<Rightarrow> nat list VersionInfo_sv \<Rightarrow> bool) \<and>
   loadVersions NewVersion_strict insertion_sort fs_releases
       \<lparr>FilesDir = ''./files'', BaseURL = ''http://localhost:8080'', Versions = []\<rparr> =
     Inr srv_releases \<and>
   sorted (map (\<lambda>v. precedence (Version v)) (Versions srv_releases)) \<and>
   handleCheck NewVersion_strict srv_releases ''9.0.0'' =
     handleCheck_spec NewVersion_strict srv_releases ''9.0.0'' \<and>
   handleCheck_spec NewVersion_strict srv_releases ''9.0.0'' =
     Checked \<lparr>update_available = True, latest_version = ''10.0.0'',
              download_url = Some ''http://localhost:8080/download?file=app_10.0.0.zip''\<rparr>"
proof -
  let ?s0 = "\<lparr>FilesDir = ''./files'', BaseURL = ''http://localhost:8080'',
              Versions = [] :: nat list VersionInfo_sv list\<rparr>"
  have c: "Slice_sorts insertion_sort
      (version_less :: nat list VersionInfo_sv \<Rightarrow> nat list VersionInfo_sv \<Rightarrow> bool)"
    by (rule insertion_sort_sorts)
  have b: "loadVersions NewVersion_strict insertion_sort fs_releases ?s0 = Inr srv_releases"
    by code_simp
  have v: "handleCheck_spec NewVersion_strict srv_releases ''9.0.0'' =
     Checked \<lparr>update_available = True, latest_version = ''10.0.0'',
              download_url = Some ''http://localhost:8080/download?file=app_10.0.0.zip''\<rparr>"
    by code_simp
  show ?thesis
    using c b v
      handleCheck_refines [of insertion_sort NewVersion_strict fs_releases ?s0 srv_releases
        "''9.0.0''" srv_releases]
    by simp
qed


section \<open>The comparison of the check handlers\<close>

lemma checkLatest_compare:
  assumes "cur \<noteq> []" and "getAvailableVersions fs = (versions, None)" and "versions \<noteq> []"
  shows "checkLatest url fs cur =
     (if cur < Max (set versions)
      then Info \<lparr>LatestVersion = Max (set versions),
                  DownloadURL = url @ Max (set versions), CheckSum = []\<rparr>
      else Info \<lparr>LatestVersion = Max (set versions), DownloadURL = [], CheckSum = []\<rparr>)"
proof -
  have ne: "sort versions \<noteq> []"
    using assms(3) by (metis length_0_conv length_sort)
  have mx: "sort versions ! (length versions - Suc 0) = Max (set versions)"
    using last_sort_Max[OF assms(3)] by simp
  show ?thesis
    using assms(1,2) ne by (simp add: checkLatest_def Let_def mx)
qed

lemma checkForUpdate_compare:
  assumes "cur \<noteq> []" and "getAvailableVersions fs = (versions, None)" and "versions \<noteq> []"
    and "CalculateChecksum digest fs
           (Join otaFilesPath (''plugin_'' @ Max (set versions) @ ''.wasm'')) = Inr checksum"
  shows "checkForUpdate digest fs cur =
     (if cur < Max (set versions)
      then Info \<lparr>LatestVersion = Max (set versions),
                  DownloadURL = ''/download?version='' @ Max (set versions),
                  CheckSum = checksum\<rparr>
      else Info \<lparr>LatestVersion = Max (set versions), DownloadURL = [], CheckSum = []\<rparr>)"
proof -
  have ne: "sort versions \<noteq> []"
    using assms(3) by (metis length_0_conv length_sort)
  have mx: "sort versions ! (length versions - Suc 0) = Max (set versions)"
    using last_sort_Max[OF assms(3)] by simp
  show ?thesis
    using assms(1,2) ne assms(4) by (simp add: checkForUpdate_def Let_def mx)
qed

lemma last_precedence_Max:
  assumes "sorted (map (\<lambda>v. precedence (Version v)) vs)" and "vs \<noteq> []"
  shows "precedence (Version (last vs)) = Max (set (map (\<lambda>v. precedence (Version v)) vs))"
proof -
  have "last (map (\<lambda>v. precedence (Version v)) vs) =
        Max (set (map (\<lambda>v. precedence (Version v)) vs))"
    using assms by (intro sorted_last_Max) simp_all
  then show ?thesis using assms(2) by (simp add: last_map)
qed

lemma handleCheck_compare:
  assumes "cur \<noteq> []" and "NewVersion cur = Some c"
    and "sorted (map (\<lambda>v. precedence (Version v)) (Versions s))"
  shows "handleCheck NewVersion s cur =
     (if Versions s \<noteq> [] \<and>
         precedence c < Max (set (map (\<lambda>v. precedence (Version v)) (Versions s)))
      then Checked \<lparr>update_available = True,
                    latest_version = canonical (Version (last (Versions s))),
                    download_url = Some (DownloadURL_sv (last (Versions s)))\<rparr>
      else Checked \<lparr>update_available = False,
                    latest_version =
                      (if Versions s = [] then ''0.0.0''
                       else canonical (Version (last (Versions s)))),
                    download_url = None\<rparr>)"
proof (cases "Versions s = []")
  case True
  then show ?thesis using assms(1,2) by (simp add: handleCheck_def)
next
  case False
  then show ?thesis
    using assms(1,2) latest_loop_sorted[OF assms(3)] last_precedence_Max[OF assms(3) False]
    by (simp add: handleCheck_def last_conv_nth)
qed

lemma CalculateChecksum_cases:
  "CalculateChecksum digest fs p =
     (case Stat fs p of
        Found (File (Some bytes)) \<Rightarrow> Inr (EncodeToString (digest bytes))
      | Found (File None) \<Rightarrow> Inl OpenFailed
      | Found (Dir es) \<Rightarrow> Inl CopyFailed
      | Found DirUnreadable \<Rightarrow> Inl OpenFailed
      | NotExist \<Rightarrow> Inl OpenFailed
      | StatError \<Rightarrow> Inl OpenFailed)"
  by (simp add: CalculateChecksum_def split: stat_result.splits node.splits option.splits)

lemma checkForUpdate_checksum_error:
  assumes "cur \<noteq> []" and "getAvailableVersions fs = (versions, None)" and "versions \<noteq> []"
    and "CalculateChecksum digest fs
           (Join otaFilesPath (''plugin_'' @ Max (set versions) @ ''.wasm'')) = Inl e"
  shows "checkForUpdate digest fs cur = Error 500 ''Error calculating checksum''"
proof -
  have ne: "sort versions \<noteq> []"
    using assms(3) by (metis length_0_conv length_sort)
  have mx: "sort versions ! (length versions - Suc 0) = Max (set versions)"
    using last_sort_Max[OF assms(3)] by simp
  show ?thesis
    using assms(1,2) ne assms(4) by (simp add: checkForUpdate_def Let_def mx)
qed

text \<open>
  C2, as the code has it. In the semantic-version server, as \<open>NewServer\<close> builds it, a
  check request whose \<open>current_version\<close> parses is answered "update available", with the
  locator of the latest entry, exactly when the maximum of the catalog is strictly greater
  than the current version; otherwise it is answered "no update" with the maximum of the
  catalog as latest version (\<open>0.0.0\<close> for the empty catalog), so a tie is "no update". In
  the gin server the handlers make the same comparison once the scan has returned a
  catalog that is not empty; \<open>checkForUpdate\<close> first reads the plugin file of the maximum
  for the checksum and answers 500 when that fails, whatever the comparison would give.
\<close>

theorem check_update_iff_newer:
  "(Slice_sorts Slice version_less \<and> loadVersions NewVersion Slice fs' s0 = Inr s \<and>
    cur \<noteq> [] \<and> NewVersion cur = Some c \<longrightarrow>
      handleCheck NewVersion s cur =
        (if Versions s \<noteq> [] \<and>
            precedence c < Max (set (map (\<lambda>v. precedence (Version v)) (Versions s)))
         then Checked \<lparr>update_available = True,
                       latest_version = canonical (Version (last (Versions s))),
                       download_url = Some (DownloadURL_sv (last (Versions s)))\<rparr>
         else Checked \<lparr>update_available = False,
                       latest_version =
                         (if Versions s = [] then ''0.0.0''
                          else canonical (Version (last (Versions s)))),
                       download_url = None\<rparr>) \<and>
      (Versions s \<noteq> [] \<longrightarrow>
         precedence (Version (last (Versions s))) =
           Max (set (map (\<lambda>v. precedence (Version v)) (Versions s))))) \<and>
   (cur \<noteq> [] \<and> getAvailableVersions fs = (versions, None) \<and> versions \<noteq> [] \<longrightarrow>
      checkForUpdate digest fs cur =
        (case CalculateChecksum digest fs
                (Join otaFilesPath (''plugin_'' @ Max (set versions) @ ''.wasm'')) of
           Inl e \<Rightarrow> Error 500 ''Error calculating checksum''
         | Inr checksum \<Rightarrow>
             if cur < Max (set versions)
             then Info \<lparr>LatestVersion = Max (set versions),
                         DownloadURL = ''/download?version='' @ Max (set versions),
                         CheckSum = checksum\<rparr>
             else Info \<lparr>LatestVersion = Max (set versions), DownloadURL = [],
                         CheckSum = []\<rparr>)) \<and>
   (cur \<noteq> [] \<and> getAvailableVersions fs = (versions, None) \<and> versions \<noteq> [] \<longrightarrow>
      checkLatest url fs cur =
        (if cur < Max (set versions)
         then Info \<lparr>LatestVersion = Max (set versions),
                     DownloadURL = url @ Max (set versions), CheckSum = []\<rparr>
         else Info \<lparr>LatestVersion = Max (set versions), DownloadURL = [],
                     CheckSum = []\<rparr>))"
proof -
  have gin: "checkForUpdate digest fs cur =
        (case CalculateChecksum digest fs
                (Join otaFilesPath (''plugin_'' @ Max (set versions) @ ''.wasm'')) of
           Inl e \<Rightarrow> Error 500 ''Error calculating checksum''
         | Inr checksum \<Rightarrow>
             if cur < Max (set versions)
             then Info \<lparr>LatestVersion = Max (set versions),
                         DownloadURL = ''/download?version='' @ Max (set versions),
                         CheckSum = checksum\<rparr>
             else Info \<lparr>LatestVersion = Max (set versions), DownloadURL = [],
                         CheckSum = []\<rparr>)"
    if "cur \<noteq> []" and "getAvailableVersions fs = (versions, None)" and "versions \<noteq> []"
  proof (cases "CalculateChecksum digest fs
                (Join otaFilesPath (''plugin_'' @ Max (set versions) @ ''.wasm''))")
    case (Inl e)
    then show ?thesis
      using checkForUpdate_checksum_error [OF that Inl] by simp
  next
    case (Inr checksum)
    then show ?thesis
      using checkForUpdate_compare [OF that Inr] by simp
  qed
  show ?thesis
    using handleCheck_compare [of cur NewVersion c s]
      loadVersions_sorted [of Slice NewVersion fs' s0 s]
      last_precedence_Max [of "Versions s"]
      gin checkLatest_compare [of cur fs versions url]
    by blast
qed

theorem check_update_iff_newer_witness:
  "Slice_sorts insertion_sort (version_less :: nat list VersionInfo_sv \<Rightarrow> nat list VersionInfo_sv \<Rightarrow> bool) \<and>
   loadVersions NewVersion_strict insertion_sort fs_releases
       \<lparr>FilesDir = ''./files'', BaseURL = ''http://localhost:8080'', Versions = []\<rparr> =
     Inr srv_releases \<and>
   NewVersion_strict ''9.0.0'' = Some \<lparr>precedence = [9, 0, 0], canonical = ''9.0.0''\<rparr> \<and>
   handleCheck NewVersion_strict srv_releases ''9.0.0'' =
     Checked \<lparr>update_available = True, latest_version = ''10.0.0'',
              download_url = Some ''http://localhost:8080/download?file=app_10.0.0.zip''\<rparr> \<and>
   getAvailableVersions fs_plugin = ([''1.0.0'', ''1.2.0''], None) \<and>
   checkForUpdate byte_sum fs_plugin ''9.0.0'' =
     Info \<lparr>LatestVersion = ''1.2.0'', DownloadURL = [], CheckSum = []\<rparr> \<and>
   checkLatest ''/download-blink-one?version='' fs_plugin ''9.0.0'' =
     Info \<lparr>LatestVersion = ''1.2.0'', DownloadURL = [], CheckSum = []\<rparr>"
proof -
  let ?s0 = "\<lparr>FilesDir = ''./files'', BaseURL = ''http://localhost:8080'',
              Versions = [] :: nat list VersionInfo_sv list\<rparr>"
  have ct: "Slice_sorts insertion_sort
      (version_less :: nat list VersionInfo_sv \<Rightarrow> nat list VersionInfo_sv \<Rightarrow> bool)"
    by (rule insertion_sort_sorts)
  have b: "loadVersions NewVersion_strict insertion_sort fs_releases ?s0 = Inr srv_releases"
    by code_simp
  have p: "NewVersion_strict ''9.0.0'' = Some \<lparr>precedence = [9, 0, 0], canonical = ''9.0.0''\<rparr>"
    by code_simp
  have scan: "getAvailableVersions fs_plugin = ([''1.0.0'', ''1.2.0''], None)"
    by code_simp
  have mx: "Max (set [''1.0.0'', ''1.2.0'']) = ''1.2.0''"
    by simp
  have sum: "CalculateChecksum byte_sum fs_plugin
      (Join otaFilesPath (''plugin_'' @ ''1.2.0'' @ ''.wasm'')) = Inr ''4a''"
    by code_simp
  have nlt: "\<not> ''9.0.0'' < ''1.2.0''"
    by simp
  have pmx: "Max ((\<lambda>v. precedence (Version v)) ` set (Versions srv_releases)) = [10, 0, 0]"
    by (simp add: srv_releases_def)
  have lst: "last (Versions srv_releases) =
      \<lparr>Version = \<lparr>precedence = [10, 0, 0], canonical = ''10.0.0''\<rparr>,
       FileName = ''app_10.0.0.zip'',
       DownloadURL_sv = ''http://localhost:8080/download?file=app_10.0.0.zip''\<rparr>"
    by (simp add: srv_releases_def)
  have ne: "Versions srv_releases \<noteq> []"
    by (simp add: srv_releases_def)
  note t = check_update_iff_newer
      [of insertion_sort NewVersion_strict fs_releases ?s0 srv_releases "''9.0.0''"
          "\<lparr>precedence = [9, 0, 0], canonical = ''9.0.0''\<rparr>"
          fs_plugin "[''1.0.0'', ''1.2.0'']" byte_sum "''/download-blink-one?version=''"]
  have h: "handleCheck NewVersion_strict srv_releases ''9.0.0'' =
     Checked \<lparr>update_available = True, latest_version = ''10.0.0'',
              download_url = Some ''http://localhost:8080/download?file=app_10.0.0.zip''\<rparr>"
    using t ct b p by (simp add: pmx lst ne)
  have g: "checkForUpdate byte_sum fs_plugin ''9.0.0'' =
     Info \<lparr>LatestVersion = ''1.2.0'', DownloadURL = [], CheckSum = []\<rparr>"
    using t scan sum nlt by (simp add: mx)
  have k: "checkLatest ''/download-blink-one?version='' fs_plugin ''9.0.0'' =
     Info \<lparr>LatestVersion = ''1.2.0'', DownloadURL = [], CheckSum = []\<rparr>"
    using t scan nlt by (simp add: mx)
  show ?thesis
    using ct b p h scan g k by simp
qed

text \<open>The claim of C2 fails in the server with checksums when the plugin file of the
  maximum cannot be read: the maximum is strictly greater than the current version and
  the request is answered 500.\<close>

theorem check_update_iff_newer_counterexample:
  "getAvailableVersions fs_one = ([''1.0.0''], None) \<and>
   ''0.5'' < Max (set [''1.0.0'']) \<and>
   checkForUpdate byte_sum fs_one ''0.5'' = Error 500 ''Error calculating checksum''"
  by code_simp


section \<open>The empty catalog\<close>

lemma handleCheck_empty_catalog:
  "cur \<noteq> [] \<Longrightarrow> NewVersion cur = Some c \<Longrightarrow> Versions s = [] \<Longrightarrow>
   handleCheck NewVersion s cur =
     Checked \<lparr>update_available = False, latest_version = ''0.0.0'', download_url = None\<rparr>"
  by (simp add: handleCheck_def)

text \<open>
  C1. On an empty catalog a check request with a valid version is to be answered with
  latest version \<open>0.0.0\<close> and no update. \<open>handleCheck\<close> does so (the lemma above). The
  check handlers of the gin server index the last element of the sorted slice without
  looking at its length: on the empty artifact directory they panic.
\<close>

theorem checkForUpdate_empty_catalog_panics:
  "checkForUpdate digest fs_empty ''1.0.0'' = Panic \<and>
   checkForUpdateBlinkOne fs_empty ''1.0.0'' = Panic \<and>
   checkForUpdateBlinkFive fs_empty ''1.0.0'' = Panic \<and>
   checkForUpdate_plain fs_empty ''1.0.0'' = Panic"
  by code_simp

section \<open>The version token of a file name\<close>

lemma ext_scan_suffix:
  "CHR ''.'' \<notin> set r \<Longrightarrow> CHR ''/'' \<notin> set r \<Longrightarrow>
   ext_scan (r @ CHR ''.'' # rest) acc = CHR ''.'' # rev r @ acc"
  by (induction r arbitrary: acc) auto

lemma Ext_suffix:
  assumes "CHR ''.'' \<notin> set ext" and "CHR ''/'' \<notin> set ext"
  shows "Ext (base @ ''.'' @ ext) = ''.'' @ ext"
  using ext_scan_suffix [of "rev ext" "rev base" "[]"] assms by (simp add: Ext_def)

lemma TrimSuffix_append: "TrimSuffix (base @ suffix) suffix = base"
  by (simp add: TrimSuffix_def)

lemma Split_not_Nil: "Split s c \<noteq> []"
  by (induction s) (auto split: list.splits)

lemma Split_none: "c \<notin> set s \<Longrightarrow> Split s c = [s]"
  by (induction s) auto

lemma Split_append: "c \<notin> set f \<Longrightarrow> Split (f @ c # t) c = f # Split t c"
  by (induction f) auto

lemma length_Split: "length (Split s c) = Suc (count_list s c)"
  by (induction s) (auto split: list.splits simp: Split_not_Nil)

lemma LastIndex_none: "c \<notin> set s \<Longrightarrow> LastIndex s c = -1"
  by (induction s) (auto simp: Let_def)

lemma LastIndex_last: "c \<notin> set t \<Longrightarrow> LastIndex (f @ c # t) c = int (length f)"
  by (induction f) (auto simp: Let_def LastIndex_none)

lemma versionStr_last_underscore:
  assumes "CHR ''_'' \<notin> set token" and "CHR ''.'' \<notin> set ext" and "CHR ''/'' \<notin> set ext"
  shows "versionStr (family @ ''_'' @ token @ ''.'' @ ext) = Some token"
proof -
  let ?name = "family @ ''_'' @ token @ ''.'' @ ext"
  have e: "Ext ?name = ''.'' @ ext"
    using Ext_suffix [OF assms(2,3), of "family @ ''_'' @ token"] by simp
  have b: "TrimSuffix ?name (Ext ?name) = family @ ''_'' @ token"
    unfolding e using TrimSuffix_append [of "family @ ''_'' @ token" "''.'' @ ext"] by simp
  have l: "2 \<le> length (Split ?name (CHR ''_''))"
    by (simp add: length_Split)
  have i: "LastIndex (family @ ''_'' @ token) (CHR ''_'') = int (length family)"
    using LastIndex_last [OF assms(1), of family] by simp
  have n: "nat (int (length family) + 1) = Suc (length family)"
    by simp
  have d: "drop (nat (int (length family) + 1)) (family @ ''_'' @ token) = token"
    unfolding n by simp
  show ?thesis
    unfolding versionStr_def Let_def b i d using l by simp
qed

lemma extractVersionFromFile_one_underscore:
  assumes "CHR ''_'' \<notin> set family" and "CHR ''_'' \<notin> set token"
    and "CHR ''.'' \<notin> set ext" and "CHR ''/'' \<notin> set ext"
  shows "extractVersionFromFile (family @ ''_'' @ token @ ''.'' @ ext) = token"
proof -
  let ?name = "family @ ''_'' @ token @ ''.'' @ ext"
  have e: "Ext ?name = ''.'' @ ext"
    using Ext_suffix [OF assms(3,4), of "family @ ''_'' @ token"] by simp
  have b: "TrimSuffix ?name (Ext ?name) = family @ ''_'' @ token"
    unfolding e using TrimSuffix_append [of "family @ ''_'' @ token" "''.'' @ ext"] by simp
  have s: "Split (family @ ''_'' @ token) (CHR ''_'') = [family, token]"
    using Split_append [OF assms(1), of token] Split_none [OF assms(2)] by simp
  show ?thesis
    unfolding extractVersionFromFile_def Let_def b s by simp
qed

text \<open>
  C3. The extractor is to return the part of the base name after its last underscore,
  however many underscores come before. The extractor of \<open>loadVersions\<close> does so (lemma
  \<open>versionStr_last_underscore\<close>); \<open>extractVersionFromFile\<close> of the gin server does so only
  for a family without an underscore, and returns no version for the file name below.
\<close>

theorem extractVersionFromFile_two_underscores:
  "extractVersionFromFile ''my_app_1.2.0.zip'' = [] \<and>
   versionStr ''my_app_1.2.0.zip'' = Some ''1.2.0''"
  by code_simp

section \<open>The download handlers\<close>

text \<open>
  C4. A requested value with a path separator is to be rejected with 400 before any
  file system call. \<open>handleDownload\<close> does so (lemma \<open>handleDownload_rejects_separators\<close>
  below). The download handlers of the gin server have no such check: the request
  below makes \<open>downloadNewVersion\<close> stat and serve a file outside the artifact directory.
\<close>

theorem downloadNewVersion_traversal:
  "downloadNewVersion fs_secret ''../../../secret'' =
     (Served (Some ''plugin_../../../secret.wasm'') (False, [''secret.wasm''])
        (Content ''key''),
      [OpStat (False, [''secret.wasm'']), OpOpen (False, [''secret.wasm''])])"
  by code_simp

lemma handleDownload_rejects_separators:
  "Contains file (CHR ''/'') \<or> Contains file (CHR 0x5C) \<Longrightarrow>
   handleDownload s fs file = (Error 400 ''Invalid 'file' parameter'', [])"
  by (auto simp: handleDownload_def Contains_def)

text \<open>
  C5. A download request is to be answered 400 when the parameter is missing, 404 when
  the path does not exist and 400 when it is a directory; only a regular file is to be
  streamed. \<open>handleDownload\<close> does so (lemma \<open>handleDownload_cases\<close> below). The download
  handlers of the gin server do not look at the kind of the path (lemma
  \<open>downloadFile_cases\<close>): for a directory they set the header and hand the path to
  \<^verbatim>\<open>c.File\<close>, and the answer is that of \<^verbatim>\<open>http.ServeFile\<close>, not 400.
\<close>

theorem downloadNewVersion_directory:
  "downloadNewVersion fs_dir ''1.0.0'' =
     (Served (Some ''plugin_1.0.0.wasm'') (False, [''ota_files'', ''plugin_1.0.0.wasm''])
        DirectoryReply,
      [OpStat (False, [''ota_files'', ''plugin_1.0.0.wasm'']),
       OpOpen (False, [''ota_files'', ''plugin_1.0.0.wasm''])])"
  by code_simp

lemma handleDownload_cases:
  "fst (handleDownload s fs file) =
     (if file = [] then Error 400 ''Missing 'file' parameter''
      else if CHR ''/'' \<in> set file \<or> CHR 0x5C \<in> set file
      then Error 400 ''Invalid 'file' parameter''
      else case Stat fs (Join (FilesDir s) file) of
        NotExist \<Rightarrow> Error 404 ''File not found''
      | StatError \<Rightarrow> Panic
      | Found (File c) \<Rightarrow>
          Served None (Join (FilesDir s) file)
            (case c of Some bytes \<Rightarrow> Content bytes | None \<Rightarrow> ServeError)
      | Found (Dir es) \<Rightarrow> Error 400 ''Requested file is a directory''
      | Found DirUnreadable \<Rightarrow> Error 400 ''Requested file is a directory'')"
  by (simp add: handleDownload_def Contains_def ServeFile_def Let_def
      split: stat_result.splits node.splits option.splits)

lemma downloadFile_cases:
  "fst (downloadFile prefix fs v) =
     (if v = [] then Error 400 ''version is required''
      else case Stat fs (Join otaFilesPath (prefix @ v @ ''.wasm'')) of
        NotExist \<Rightarrow> Error 404 ''version not found''
      | StatError \<Rightarrow>
          Served (Some (prefix @ v @ ''.wasm'')) (Join otaFilesPath (prefix @ v @ ''.wasm''))
            ServeError
      | Found (File c) \<Rightarrow>
          Served (Some (prefix @ v @ ''.wasm'')) (Join otaFilesPath (prefix @ v @ ''.wasm''))
            (case c of Some bytes \<Rightarrow> Content bytes | None \<Rightarrow> ServeError)
      | Found (Dir es) \<Rightarrow>
          Served (Some (prefix @ v @ ''.wasm'')) (Join otaFilesPath (prefix @ v @ ''.wasm''))
            DirectoryReply
      | Found DirUnreadable \<Rightarrow>
          Served (Some (prefix @ v @ ''.wasm'')) (Join otaFilesPath (prefix @ v @ ''.wasm''))
            ServeError)"
  by (simp add: downloadFile_def ServeFile_def Let_def
      split: stat_result.splits node.splits option.splits)



section \<open>The catalog scan\<close>

lemma tokens_of_append: "tokens_of (xs @ ys) = tokens_of xs @ tokens_of ys"
  by (simp add: tokens_of_def)

lemma walk_versions_fn:
  "fst (walk versions_fn name nd acc) = (if readable nd then None else Some ErrOther) \<and>
   (readable nd \<longrightarrow> snd (walk versions_fn name nd acc) = acc @ tokens_of (files_of name nd))"
  "fst (walk_names versions_fn es acc) = (if readable_all es then None else Some ErrOther) \<and>
   (readable_all es \<longrightarrow> snd (walk_names versions_fn es acc) = acc @ tokens_of (files_in es))"
proof (induction versions_fn name nd acc and versions_fn es acc rule: walk_walk_names.induct)
  case (1 name c s)
  then show ?case by (simp add: versions_fn_def tokens_of_def Let_def)
next
  case (2 name s)
  then show ?case by (simp add: versions_fn_def)
next
  case (3 name es s)
  then show ?case by (simp add: versions_fn_def)
next
  case (4 s)
  then show ?case by (simp add: tokens_of_def)
next
  case (5 n nd es s)
  show ?case
  proof (cases "walk versions_fn n nd s")
    case (Pair e s')
    show ?thesis
    proof (cases e)
      case None
      with Pair 5 show ?thesis
        by (auto simp: tokens_of_append split: if_splits)
    next
      case (Some err)
      with Pair 5 show ?thesis
        by (auto split: if_splits)
    qed
  qed
qed

lemma entries_of_append:
  "entries_of NV b (xs @ ys) = entries_of NV b xs @ entries_of NV b ys"
  by (simp add: entries_of_def)

lemma loadVersions_fn_file:
  "loadVersions_fn NV b name False None acc = (None, acc @ entries_of NV b [name])"
  by (simp add: loadVersions_fn_def entries_of_def entry_of_def split: option.splits)

lemma walkDir_loadVersions_fn:
  "fst (walkDir (loadVersions_fn NV b) name nd acc) =
     (if readable nd then None else Some ErrOther) \<and>
   (readable nd \<longrightarrow>
     snd (walkDir (loadVersions_fn NV b) name nd acc) = acc @ entries_of NV b (files_of name nd))"
  "fst (walkDir_names (loadVersions_fn NV b) es acc) =
     (if readable_all es then None else Some ErrOther) \<and>
   (readable_all es \<longrightarrow>
     snd (walkDir_names (loadVersions_fn NV b) es acc) = acc @ entries_of NV b (files_in es))"
proof (induction "loadVersions_fn NV b" name nd acc and "loadVersions_fn NV b" es acc
    rule: walkDir_walkDir_names.induct)
  case (1 name c s)
  then show ?case by (simp add: loadVersions_fn_file)
next
  case (2 name s)
  then show ?case by (simp add: loadVersions_fn_def)
next
  case (3 name es s)
  then show ?case by (simp add: loadVersions_fn_def)
next
  case (4 s)
  then show ?case by (simp add: entries_of_def)
next
  case (5 n nd es s)
  show ?case
  proof (cases "walkDir (loadVersions_fn NV b) n nd s")
    case (Pair e s')
    show ?thesis
    proof (cases e)
      case None
      with Pair 5 show ?thesis
        by (auto simp: entries_of_append split: if_splits)
    next
      case (Some err)
      with Pair 5 show ?thesis
        by (auto split: if_splits)
    qed
  qed
qed

lemma getAvailableVersions_readable:
  assumes "Lstat fs otaFilesPath = Found nd" and "readable nd"
  shows "getAvailableVersions fs = (tokens_of (files_of (basename otaFilesPath) nd), None)"
  using assms walk_versions_fn(1) [of "basename otaFilesPath" nd "[]"]
  by (cases "walk versions_fn (basename otaFilesPath) nd []")
    (simp add: getAvailableVersions_def Walk_def)

lemma getAvailableVersions_error:
  assumes "Lstat fs otaFilesPath = NotExist \<or> Lstat fs otaFilesPath = StatError \<or>
           (\<exists>nd. Lstat fs otaFilesPath = Found nd \<and> \<not> readable nd)"
  shows "snd (getAvailableVersions fs) \<noteq> None"
proof -
  consider "Lstat fs otaFilesPath = NotExist" | "Lstat fs otaFilesPath = StatError"
    | nd where "Lstat fs otaFilesPath = Found nd" and "\<not> readable nd"
    using assms by blast
  then show ?thesis
  proof cases
    case 1
    then show ?thesis by (simp add: getAvailableVersions_def Walk_def versions_fn_def)
  next
    case 2
    then show ?thesis by (simp add: getAvailableVersions_def Walk_def versions_fn_def)
  next
    case 3
    then show ?thesis
      using walk_versions_fn(1) [of "basename otaFilesPath" nd "[]"]
      by (cases "walk versions_fn (basename otaFilesPath) nd []")
        (simp add: getAvailableVersions_def Walk_def)
  qed
qed

lemma check_scan_error:
  assumes "snd (getAvailableVersions fs) \<noteq> None" and "cur \<noteq> []"
  shows "checkForUpdate digest fs cur = Error 500 ''Could not fetch available versions''"
    and "checkLatest url fs cur = Error 500 ''Could not fetch available versions''"
  using assms
  by (auto simp: checkForUpdate_def checkLatest_def split: prod.splits option.splits)

lemma loadVersions_readable:
  assumes "Lstat fs (FilesDir s) = Found nd" and "readable nd"
  shows "loadVersions NV Slice fs s =
     Inr (s\<lparr>Versions := Slice version_less
        (entries_of NV (BaseURL s) (files_of (basename (FilesDir s)) nd))\<rparr>)"
  using assms
    walkDir_loadVersions_fn(1) [of NV "BaseURL s" "basename (FilesDir s)" nd "[]"]
  by (cases "walkDir (loadVersions_fn NV (BaseURL s)) (basename (FilesDir s)) nd []")
    (simp add: loadVersions_def WalkDir_def)

lemma loadVersions_error:
  assumes "Lstat fs (FilesDir s) = NotExist \<or> Lstat fs (FilesDir s) = StatError \<or>
           (\<exists>nd. Lstat fs (FilesDir s) = Found nd \<and> \<not> readable nd)"
  shows "\<exists>e. loadVersions NV Slice fs s = Inl e"
proof -
  consider "Lstat fs (FilesDir s) = NotExist" | "Lstat fs (FilesDir s) = StatError"
    | nd where "Lstat fs (FilesDir s) = Found nd" and "\<not> readable nd"
    using assms by blast
  then show ?thesis
  proof cases
    case 1
    then show ?thesis by (simp add: loadVersions_def WalkDir_def loadVersions_fn_def)
  next
    case 2
    then show ?thesis by (simp add: loadVersions_def WalkDir_def loadVersions_fn_def)
  next
    case 3
    then show ?thesis
      using walkDir_loadVersions_fn(1) [of NV "BaseURL s" "basename (FilesDir s)" nd "[]"]
      by (cases "walkDir (loadVersions_fn NV (BaseURL s)) (basename (FilesDir s)) nd []")
        (simp add: loadVersions_def WalkDir_def)
  qed
qed

text \<open>Examples of the scan: a directory named like an artifact contributes no token; a
  subdirectory that cannot be read, and an artifact path that is a regular file, give
  the error of the walk.\<close>

lemma scan_examples:
  "getAvailableVersions fs_dirname = ([''1.0.0''], None) \<and>
   snd (getAvailableVersions fs_locked) = Some ErrOther \<and>
   getAvailableVersions fs_rootfile = ([], Some ErrOther) \<and>
   checkForUpdate digest fs_rootfile ''1.0.0'' =
     Error 500 ''Could not fetch available versions''"
  by code_simp

text \<open>
  C6. The scan is to skip subdirectories: files inside subdirectories of the artifact
  directory are to contribute no version token; and an artifact directory that cannot be
  read is to give an error instead of a catalog. The error is given (lemmas
  \<open>getAvailableVersions_error\<close> and \<open>loadVersions_error\<close>). The callbacks return nil for
  a directory, which does not stop the walk from entering it: on a directory whose only
  versioned file lies in a subdirectory, both servers have its token in the catalog.
\<close>

theorem catalog_scan_enters_subdirectories:
  "getAvailableVersions fs_nested = ([''9.9.9''], None) \<and>
   NewServer NewVersion_strict insertion_sort fs_nested ''./files'' ''http://localhost:8080'' =
     Inr srv_nested"
  by code_simp

section \<open>The checksum of the gin server\<close>

text \<open>
  C7, as the code has it. In the server with checksums every check request that reaches
  the catalog reads the file \<open>plugin_<latest>.wasm\<close> of the file system as it is at the
  request (the handler keeps nothing between requests) and digests all its bytes. Any
  failure to read it fails the request with 500, also when no update would be offered.
  The response carries the checksum, the hex encoding of the digest, when it offers an
  update; the response "no update" has no checksum field.
\<close>

theorem checksum_with_update_only:
  "cur \<noteq> [] \<and> getAvailableVersions fs = (versions, None) \<and> versions \<noteq> [] \<longrightarrow>
     checkForUpdate digest fs cur =
       (case Stat fs (Join otaFilesPath (''plugin_'' @ Max (set versions) @ ''.wasm'')) of
          Found (File (Some bytes)) \<Rightarrow>
            if cur < Max (set versions)
            then Info \<lparr>LatestVersion = Max (set versions),
                        DownloadURL = ''/download?version='' @ Max (set versions),
                        CheckSum = EncodeToString (digest bytes)\<rparr>
            else Info \<lparr>LatestVersion = Max (set versions), DownloadURL = [],
                        CheckSum = []\<rparr>
        | _ \<Rightarrow> Error 500 ''Error calculating checksum'')"
proof (intro impI, elim conjE)
  assume a: "cur \<noteq> []" "getAvailableVersions fs = (versions, None)" "versions \<noteq> []"
  let ?p = "Join otaFilesPath (''plugin_'' @ Max (set versions) @ ''.wasm'')"
  show "checkForUpdate digest fs cur =
       (case Stat fs ?p of
          Found (File (Some bytes)) \<Rightarrow>
            if cur < Max (set versions)
            then Info \<lparr>LatestVersion = Max (set versions),
                        DownloadURL = ''/download?version='' @ Max (set versions),
                        CheckSum = EncodeToString (digest bytes)\<rparr>
            else Info \<lparr>LatestVersion = Max (set versions), DownloadURL = [],
                        CheckSum = []\<rparr>
        | _ \<Rightarrow> Error 500 ''Error calculating checksum'')"
  proof (cases "CalculateChecksum digest fs ?p")
    case (Inl e)
    then have "checkForUpdate digest fs cur = Error 500 ''Error calculating checksum''"
      using a by (rule checkForUpdate_checksum_error [rotated 3])
    moreover have "\<not> (\<exists>bytes. Stat fs ?p = Found (File (Some bytes)))"
      using Inl unfolding CalculateChecksum_cases by auto
    ultimately show ?thesis
      by (auto split: stat_result.splits node.splits option.splits)
  next
    case (Inr checksum)
    then obtain bytes where b: "Stat fs ?p = Found (File (Some bytes))"
        and c: "checksum = EncodeToString (digest bytes)"
      unfolding CalculateChecksum_cases
      by (auto split: stat_result.splits node.splits option.splits)
    show ?thesis
      using checkForUpdate_compare [OF a Inr] b c by simp
  qed
qed

theorem checksum_with_update_only_witness:
  "getAvailableVersions fs_plugin = ([''1.0.0'', ''1.2.0''], None) \<and>
   checkForUpdate byte_sum fs_plugin ''1.0.0'' =
     Info \<lparr>LatestVersion = ''1.2.0'', DownloadURL = ''/download?version=1.2.0'',
           CheckSum = EncodeToString (byte_sum ''new'')\<rparr> \<and>
   EncodeToString (byte_sum ''new'') = ''4a'' \<and>
   getAvailableVersions fs_plugin_rebuilt = ([''1.0.0'', ''1.2.0''], None) \<and>
   checkForUpdate byte_sum fs_plugin_rebuilt ''1.0.0'' =
     Info \<lparr>LatestVersion = ''1.2.0'', DownloadURL = ''/download?version=1.2.0'',
           CheckSum = EncodeToString (byte_sum ''newer'')\<rparr> \<and>
   EncodeToString (byte_sum ''newer'') = ''21'' \<and>
   getAvailableVersions fs_one = ([''1.0.0''], None) \<and>
   checkForUpdate byte_sum fs_one ''1.0.0'' = Error 500 ''Error calculating checksum''"
proof -
  have s1: "getAvailableVersions fs_plugin = ([''1.0.0'', ''1.2.0''], None)" by code_simp
  have s2: "getAvailableVersions fs_plugin_rebuilt = ([''1.0.0'', ''1.2.0''], None)" by code_simp
  have s3: "getAvailableVersions fs_one = ([''1.0.0''], None)" by code_simp
  have mx: "Max (set [''1.0.0'', ''1.2.0'']) = ''1.2.0''" by simp
  have f1: "Stat fs_plugin (Join otaFilesPath (''plugin_'' @ ''1.2.0'' @ ''.wasm'')) =
      Found (File (Some ''new''))" by code_simp
  have f2: "Stat fs_plugin_rebuilt (Join otaFilesPath (''plugin_'' @ ''1.2.0'' @ ''.wasm'')) =
      Found (File (Some ''newer''))" by code_simp
  have f3: "Stat fs_one (Join otaFilesPath (''plugin_'' @ ''1.0.0'' @ ''.wasm'')) = NotExist"
    by code_simp
  have h1: "EncodeToString (byte_sum ''new'') = ''4a''" by code_simp
  have h2: "EncodeToString (byte_sum ''newer'') = ''21''" by code_simp
  have lt: "''1.0.0'' < ''1.2.0''" by simp
  have c1: "checkForUpdate byte_sum fs_plugin ''1.0.0'' =
     Info \<lparr>LatestVersion = ''1.2.0'', DownloadURL = ''/download?version=1.2.0'',
           CheckSum = EncodeToString (byte_sum ''new'')\<rparr>"
    using checksum_with_update_only
      [of "''1.0.0''" fs_plugin "[''1.0.0'', ''1.2.0'']" byte_sum] s1 f1 lt
    unfolding mx by simp
  have c2: "checkForUpdate byte_sum fs_plugin_rebuilt ''1.0.0'' =
     Info \<lparr>LatestVersion = ''1.2.0'', DownloadURL = ''/download?version=1.2.0'',
           CheckSum = EncodeToString (byte_sum ''newer'')\<rparr>"
    using checksum_with_update_only
      [of "''1.0.0''" fs_plugin_rebuilt "[''1.0.0'', ''1.2.0'']" byte_sum] s2 f2 lt
    unfolding mx by simp
  have c3: "checkForUpdate byte_sum fs_one ''1.0.0'' = Error 500 ''Error calculating checksum''"
    using checksum_with_update_only [of "''1.0.0''" fs_one "[''1.0.0'']" byte_sum] s3 f3
    by simp
  show ?thesis
    using s1 c1 h1 s2 c2 h2 s3 c3 by simp
qed

text \<open>The claim of C7 that the checksum field of every check response is the hex
  digest fails for a client that is up to date: the artifact has a checksum, the
  response has no such field.\<close>

theorem checksum_field_counterexample:
  "checkForUpdate byte_sum fs_plugin ''1.2.0'' =
     Info \<lparr>LatestVersion = ''1.2.0'', DownloadURL = [], CheckSum = []\<rparr> \<and>
   CalculateChecksum byte_sum fs_plugin (Join otaFilesPath ''plugin_1.2.0.wasm'') = Inr ''4a''"
  by code_simp

section \<open>The three check endpoints of the gin server\<close>

lemma checkLatest_shape:
  "checkLatest url fs cur =
     (if cur = [] then Error 400 ''current_version is required''
      else if snd (getAvailableVersions fs) \<noteq> None
      then Error 500 ''Could not fetch available versions''
      else if fst (getAvailableVersions fs) = [] then Panic
      else if cur < Max (set (fst (getAvailableVersions fs)))
      then Info \<lparr>LatestVersion = Max (set (fst (getAvailableVersions fs))),
                  DownloadURL = url @ Max (set (fst (getAvailableVersions fs))),
                  CheckSum = []\<rparr>
      else Info \<lparr>LatestVersion = Max (set (fst (getAvailableVersions fs))),
                  DownloadURL = [], CheckSum = []\<rparr>)"
proof (cases "getAvailableVersions fs")
  case (Pair versions err)
  show ?thesis
  proof (cases "cur = [] \<or> err \<noteq> None \<or> versions = []")
    case True
    then show ?thesis
      using Pair by (auto simp: checkLatest_def Let_def)
  next
    case False
    then show ?thesis
      using Pair checkLatest_compare [of cur fs versions url] by auto
  qed
qed

lemma checkForUpdate_shape:
  "checkForUpdate digest fs cur =
     (if cur = [] then Error 400 ''current_version is required''
      else if snd (getAvailableVersions fs) \<noteq> None
      then Error 500 ''Could not fetch available versions''
      else if fst (getAvailableVersions fs) = [] then Panic
      else case CalculateChecksum digest fs
          (Join otaFilesPath
             (''plugin_'' @ Max (set (fst (getAvailableVersions fs))) @ ''.wasm'')) of
        Inl e \<Rightarrow> Error 500 ''Error calculating checksum''
      | Inr checksum \<Rightarrow>
          if cur < Max (set (fst (getAvailableVersions fs)))
          then Info \<lparr>LatestVersion = Max (set (fst (getAvailableVersions fs))),
                      DownloadURL =
                        ''/download?version='' @ Max (set (fst (getAvailableVersions fs))),
                      CheckSum = checksum\<rparr>
          else Info \<lparr>LatestVersion = Max (set (fst (getAvailableVersions fs))),
                      DownloadURL = [], CheckSum = []\<rparr>)"
proof (cases "getAvailableVersions fs")
  case (Pair versions err)
  show ?thesis
  proof (cases "cur = [] \<or> err \<noteq> None \<or> versions = []")
    case True
    then show ?thesis
      using Pair by (auto simp: checkForUpdate_def Let_def)
  next
    case False
    show ?thesis
    proof (cases "CalculateChecksum digest fs
          (Join otaFilesPath (''plugin_'' @ Max (set versions) @ ''.wasm''))")
      case (Inl e)
      then show ?thesis
        using False Pair checkForUpdate_checksum_error [of cur fs versions digest e] by auto
    next
      case (Inr checksum)
      then show ?thesis
        using False Pair checkForUpdate_compare [of cur fs versions digest checksum] by auto
    qed
  qed
qed

text \<open>
  C9, as the code has it. The three check endpoints scan the same directory with
  \<open>getAvailableVersions\<close>, whatever the family of a file. The blink-one and blink-five
  endpoints always give the same response up to the path of the download URL, with the
  maximum token over all families as latest version. The default endpoint also reads
  \<open>plugin_<latest>.wasm\<close> for the checksum: when that succeeds it reports the same latest
  version as the other two (and a checksum with an update), and when it fails it answers
  500 while the other two answer with the latest version.
\<close>

theorem check_endpoints_latest_version:
  "(case checkForUpdateBlinkOne fs cur of
      Info r \<Rightarrow>
        LatestVersion r = Max (set (fst (getAvailableVersions fs))) \<and>
        (DownloadURL r = [] \<or>
         DownloadURL r = ''/download-blink-one?version='' @ LatestVersion r) \<and>
        CheckSum r = [] \<and>
        checkForUpdateBlinkFive fs cur =
          Info (r\<lparr>DownloadURL :=
                  (if DownloadURL r = [] then []
                   else ''/download-blink-five?version='' @ LatestVersion r)\<rparr>)
    | other \<Rightarrow> checkForUpdateBlinkFive fs cur = other) \<and>
   (case checkForUpdate digest fs cur of
      Info r \<Rightarrow>
        checkForUpdateBlinkOne fs cur =
          Info \<lparr>LatestVersion = LatestVersion r,
                DownloadURL =
                  (if DownloadURL r = [] then []
                   else ''/download-blink-one?version='' @ LatestVersion r),
                CheckSum = []\<rparr>
    | Error code msg \<Rightarrow>
        if msg = ''Error calculating checksum''
        then (\<exists>r. checkForUpdateBlinkOne fs cur = Info r)
        else checkForUpdateBlinkOne fs cur = Error code msg
    | other \<Rightarrow> checkForUpdateBlinkOne fs cur = other)"
  unfolding checkForUpdateBlinkOne_def checkForUpdateBlinkFive_def
    checkLatest_shape checkForUpdate_shape
  by (auto split: sum.splits)

theorem check_endpoints_latest_version_witness:
  "checkForUpdate byte_sum fs_plugin ''1.0.0'' =
     Info \<lparr>LatestVersion = ''1.2.0'', DownloadURL = ''/download?version=1.2.0'',
           CheckSum = ''4a''\<rparr> \<and>
   checkForUpdateBlinkOne fs_plugin ''1.0.0'' =
     Info \<lparr>LatestVersion = ''1.2.0'', DownloadURL = ''/download-blink-one?version=1.2.0'',
           CheckSum = []\<rparr> \<and>
   checkForUpdateBlinkFive fs_plugin ''1.0.0'' =
     Info \<lparr>LatestVersion = ''1.2.0'', DownloadURL = ''/download-blink-five?version=1.2.0'',
           CheckSum = []\<rparr>"
proof -
  have d: "checkForUpdate byte_sum fs_plugin ''1.0.0'' =
     Info \<lparr>LatestVersion = ''1.2.0'', DownloadURL = ''/download?version=1.2.0'',
           CheckSum = ''4a''\<rparr>"
    by code_simp
  show ?thesis
    using check_endpoints_latest_version [of fs_plugin "''1.0.0''" byte_sum] d
    by (auto split: response.splits)
qed

text \<open>The claim of C9 that the three endpoints return the same latest version fails on
  a directory without the plugin file of the latest version.\<close>

theorem check_endpoints_agree_counterexample:
  "checkForUpdate byte_sum fs_one ''0.5'' = Error 500 ''Error calculating checksum'' \<and>
   checkForUpdateBlinkOne fs_one ''0.5'' =
     Info \<lparr>LatestVersion = ''1.0.0'', DownloadURL = ''/download-blink-one?version=1.0.0'',
           CheckSum = []\<rparr> \<and>
   checkForUpdateBlinkFive fs_one ''0.5'' =
     Info \<lparr>LatestVersion = ''1.0.0'', DownloadURL = ''/download-blink-five?version=1.0.0'',
           CheckSum = []\<rparr>"
  by code_simp

section \<open>The round trip between check and download\<close>

text \<open>
  C8. Downloading the locator of a check that offers an update is to resolve to a file
  of the artifact store whose name holds the version reported. The semantic-version
  server offers the file of a subdirectory under its bare name, which the download
  handler looks for in the artifact directory itself; a blink endpoint of the gin server
  offers the maximum token of all families, which its download handler looks for under
  the name of its own family. In both the offered locator is answered 404.
\<close>

theorem offered_locator_not_found:
  "NewServer NewVersion_strict insertion_sort fs_nested ''./files'' ''http://localhost:8080'' =
     Inr srv_nested \<and>
   handleCheck NewVersion_strict srv_nested ''1.0.0'' =
     Checked \<lparr>update_available = True, latest_version = ''9.9.9'',
              download_url = Some ''http://localhost:8080/download?file=app_9.9.9.zip''\<rparr> \<and>
   handleDownload srv_nested fs_nested ''app_9.9.9.zip'' =
     (Error 404 ''File not found'', [OpStat (False, [''files'', ''app_9.9.9.zip''])]) \<and>
   checkForUpdateBlinkOne fs_plugin ''1.0.0'' =
     Info \<lparr>LatestVersion = ''1.2.0'', DownloadURL = ''/download-blink-one?version=1.2.0'',
           CheckSum = []\<rparr> \<and>
   downloadNewVersionBlinkOne fs_plugin ''1.2.0'' =
     (Error 404 ''version not found'',
      [OpStat (False, [''ota_files'', ''one-second-delay_1.2.0.wasm''])])"
  by code_simp

end
